theory Spec2Isabelle
  imports Complex_Main
begin

section \<open>Values shared by the sender and the collector\<close>

text \<open>
  The exceptions the two scripts can end with. \<open>NameError\<close> carries the unbound name.
\<close>

datatype error = TypeError | IndexError | ValueError | NameError string

text \<open>
  A value of a \<open>fields\<close> dictionary: a Python int, a Python float or \<open>None\<close>.
  Floats are modelled by the real number they denote: the rounding of IEEE arithmetic
  is abstracted away, the order of the operations is the source's.
\<close>

datatype json = JInt int | JFloat real | JNull

text \<open>The dictionary that \<open>format_data\<close> builds and the collector receives.\<close>

record metric =
  measurement :: string
  timestamp :: int
  tags :: "(string \<times> string) list"
  fields_dict :: "(string \<times> json) list"

text \<open>
  A Python dict with its iteration order: the list of its items. \<open>d[k] = v\<close> replaces
  the value of a key that is there and appends a key that is new.
\<close>

fun dict_set :: "'k \<Rightarrow> 'v \<Rightarrow> ('k \<times> 'v) list \<Rightarrow> ('k \<times> 'v) list" where
  "dict_set k v [] = [(k, v)]"
| "dict_set k v ((k', v') # d) =
     (if k' = k then (k, v) # d else (k', v') # dict_set k v d)"

type_synonym payload = "(string \<times> metric list) list"

section \<open>sender.py\<close>

subsection \<open>One line of the stats stream\<close>

text \<open>
  One decoded line of \<open>docker_client.stats\<close>, projected on the keys the sender keeps
  (\<open>read\<close>, \<open>memory_stats\<close>, \<open>cpu_stats\<close>, \<open>network\<close>). The records follow the
  runtime's schema, with every key the aggregation reads; the counters are Python
  ints. A line without one of these keys is not an input of this model (the aggregation
  would end with \<open>KeyError\<close> on it).
\<close>

record memory_stats_t =
  usage :: int

record cpu_usage_t =
  total_usage :: int

record cpu_stats_t =
  cpu_usage :: cpu_usage_t
  system_cpu_usage :: int

record network_t =
  tx_bytes :: int
  rx_bytes :: int
  tx_packets :: int
  rx_packets :: int
  tx_errors :: int
  rx_errors :: int
  tx_dropped :: int
  rx_dropped :: int

record sample =
  read :: string
  memory_stats :: memory_stats_t
  cpu_stats :: cpu_stats_t
  network :: network_t

text \<open>
  The value stored in \<open>machine_stats\<close> for one container. \<open>stats\<close> is \<open>None\<close> when
  the sampling of the container raised.
\<close>

record container_value =
  aliases :: "string list"
  stats :: "sample list option"

type_synonym machine_stats = "(string \<times> container_value) list"

subsection \<open>The filters\<close>

definition match_all_but_sender :: "string \<Rightarrow> container_value \<Rightarrow> bool" where
  "match_all_but_sender name val =
     (if ''sender'' \<in> set (aliases val) then False else True)"

definition match_all :: "string \<Rightarrow> container_value \<Rightarrow> bool" where
  "match_all name val = True"

text \<open>
  \<open>uuid.UUID(name, version=1)\<close> belongs to the Python library (as of Python 3.6,
  where \<open>int\<close> reads underscores). On a string it
  deletes \<open>urn:\<close> and \<open>uuid:\<close>, strips braces at both ends, deletes the hyphens,
  raises \<open>ValueError\<close> unless 32 characters are left, and reads them with
  \<open>int(hex, 16)\<close>, which raises \<open>ValueError\<close> on what it cannot read. The number
  read is below \<open>2 ^ 128\<close> and not negative, and \<open>version=1\<close> is a legal version:
  no other check can fail. \<open>UUID name\<close> says that the call returns. The names are
  ASCII strings, as container names are.
\<close>

function remove_sub :: "string \<Rightarrow> string \<Rightarrow> string" where
  "remove_sub pat [] = []"
| "remove_sub pat (c # cs) =
     (if pat \<noteq> [] \<and> take (length pat) (c # cs) = pat
      then remove_sub pat (drop (length pat) (c # cs))
      else c # remove_sub pat cs)"
  by pat_completeness auto
termination
  by (relation "measure (\<lambda>(pat, s). length s)") auto

definition strip_chars :: "char set \<Rightarrow> string \<Rightarrow> string" where
  "strip_chars cs s =
     rev (dropWhile (\<lambda>c. c \<in> cs) (rev (dropWhile (\<lambda>c. c \<in> cs) s)))"

definition hexdigit :: "char \<Rightarrow> bool" where
  "hexdigit c = (c \<in> set ''0123456789abcdefABCDEF'')"

text \<open>
  \<open>int(s, 16)\<close> on an ASCII string: blanks (tab, line feed, vertical tab, form feed,
  carriage return, space) are skipped at both ends; then come an optional sign, an
  optional prefix \<open>0x\<close> or \<open>0X\<close> that one underscore may follow, and at least one
  hex digit; single underscores may stand between digits, none at the start, none at
  the end, no two in a row. Anything else raises \<open>ValueError\<close>.
\<close>

definition py_isspace :: "char \<Rightarrow> bool" where
  "py_isspace c = (c \<in> {CHR 0x09, CHR 0x0A, CHR 0x0B, CHR 0x0C, CHR 0x0D, CHR 0x20})"

fun single_underscores :: "string \<Rightarrow> bool" where
  "single_underscores [] = True"
| "single_underscores [c] = (c \<noteq> CHR ''_'')"
| "single_underscores (c # d # cs) =
     (\<not> (c = CHR ''_'' \<and> d = CHR ''_'') \<and> single_underscores (d # cs))"

definition skip_sign :: "string \<Rightarrow> string" where
  "skip_sign s =
     (case s of
        [] \<Rightarrow> []
      | c # cs \<Rightarrow> if c = CHR ''+'' \<or> c = CHR ''-'' then cs else s)"

definition skip_prefix16 :: "string \<Rightarrow> string" where
  "skip_prefix16 s =
     (case s of
        c # d # cs \<Rightarrow>
          if c = CHR ''0'' \<and> (d = CHR ''x'' \<or> d = CHR ''X'')
          then (case cs of e # es \<Rightarrow> if e = CHR ''_'' then es else cs | [] \<Rightarrow> cs)
          else s
      | _ \<Rightarrow> s)"

definition int16 :: "string \<Rightarrow> bool" where
  "int16 s =
     (let s = skip_prefix16 (skip_sign (dropWhile py_isspace s));
          body = takeWhile (\<lambda>c. hexdigit c \<or> c = CHR ''_'') s;
          rest = dropWhile (\<lambda>c. hexdigit c \<or> c = CHR ''_'') s
      in body \<noteq> [] \<and> hd body \<noteq> CHR ''_'' \<and> single_underscores body
         \<and> dropWhile py_isspace rest = [])"

definition UUID :: "string \<Rightarrow> bool" where
  "UUID name =
     (let hex = remove_sub ''uuid:'' (remove_sub ''urn:'' name);
          hex = filter (\<lambda>c. c \<noteq> CHR ''-'') (strip_chars {CHR ''{'', CHR ''}''} hex)
      in if length hex \<noteq> 32 then False else int16 hex)"

definition match_on_uuid :: "string \<Rightarrow> container_value \<Rightarrow> bool" where
  "match_on_uuid name val =
     (if ''sender'' \<in> set (aliases val) then False
      else if UUID name then True
      else False)"

text \<open>
  The module binds \<open>match_container_name\<close> once, when it is loaded, from the
  environment variable \<open>MATCH_TYPE\<close>. The third branch names
  \<open>match_all_but_cadvisor\<close>, which the module never defines: evaluating it raises
  \<open>NameError\<close>. With any other value no branch runs and the name stays unbound
  (\<open>Inr None\<close>).
\<close>

definition match_container_name ::
  "string \<Rightarrow> error + (string \<Rightarrow> container_value \<Rightarrow> bool) option" where
  "match_container_name match_type_name =
     (if match_type_name = ''ALL'' then Inr (Some match_all)
      else if match_type_name = ''UUID'' then Inr (Some match_on_uuid)
      else if match_type_name = ''NO_CADVISOR'' then Inl (NameError ''match_all_but_cadvisor'')
      else Inr None)"

subsection \<open>Running totals\<close>

definition total_min_max ::
  "'a::{plus,linorder} \<Rightarrow> 'a \<Rightarrow> 'a option \<Rightarrow> 'a option \<Rightarrow> 'a \<times> 'a option \<times> 'a option" where
  "total_min_max stat s_total s_min s_max =
     (let result_min = s_min;
          result_max = s_max;
          s_total = s_total + stat;
          result_min = (case s_min of None \<Rightarrow> Some stat
                        | Some m \<Rightarrow> if stat < m then Some stat else result_min);
          result_max = (case s_max of None \<Rightarrow> Some stat
                        | Some m \<Rightarrow> if stat > m then Some stat else result_max)
      in (s_total, result_min, result_max))"

subsection \<open>Sampling one container\<close>

text \<open>
  The stats stream of one container: each item is a line that decodes to a sample, or
  the point where the iteration, \<open>json.loads\<close> or the projection on the wanted keys
  raises. The bare \<open>except\<close> takes every exception and sets the series to \<open>None\<close>.
  \<open>time_up n\<close> says whether \<open>time.time() >= end_time\<close> holds when the \<open>n\<close>-th
  sample has been appended.
\<close>

datatype stream_item = Line sample | Broken

fun collect :: "(nat \<Rightarrow> bool) \<Rightarrow> nat \<Rightarrow> stream_item list \<Rightarrow> sample list \<Rightarrow> sample list option" where
  "collect time_up interval [] collected_stats = Some collected_stats"
| "collect time_up interval (Broken # stats_obj) collected_stats = None"
| "collect time_up interval (Line s # stats_obj) collected_stats =
     (let collected_stats = collected_stats @ [s]
      in if length collected_stats \<ge> interval \<or> time_up (length collected_stats)
         then Some collected_stats
         else collect time_up interval stats_obj collected_stats)"

definition get_stats_from_daemon ::
  "(nat \<Rightarrow> bool) \<Rightarrow> stream_item list \<Rightarrow> string \<Rightarrow> string list \<Rightarrow> machine_stats \<Rightarrow> nat
     \<Rightarrow> machine_stats" where
  "get_stats_from_daemon time_up stats_obj container_id container_aliases machine_stats interval =
     dict_set container_id
       \<lparr>aliases = container_aliases, stats = collect time_up interval stats_obj []\<rparr>
       machine_stats"

subsection \<open>Aggregating one container\<close>

definition format_data :: "string \<Rightarrow> string \<Rightarrow> int \<Rightarrow> (string \<times> json) list \<Rightarrow> metric" where
  "format_data measurement_name container ts flds =
     \<lparr>measurement = measurement_name,
      timestamp = ts,
      tags = [(''container_name'', container)],
      fields_dict = flds\<rparr>"

text \<open>The loop over \<open>stats\<close>: memory in kB and the CPU counter go through \<open>total_min_max\<close>.\<close>

definition memory_kb :: "sample \<Rightarrow> real" where
  "memory_kb stat = (let memory = memory_stats stat in real_of_int (usage memory) / 1024)"

fun stat_loop ::
  "sample list \<Rightarrow> real \<times> real option \<times> real option \<Rightarrow> int \<times> int option \<times> int option
     \<Rightarrow> (real \<times> real option \<times> real option) \<times> (int \<times> int option \<times> int option)" where
  "stat_loop [] mem load = (mem, load)"
| "stat_loop (stat # rest) (total_memory, min_memory, max_memory) (total_load, min_load, max_load) =
     (let mem = total_min_max (memory_kb stat) total_memory min_memory max_memory;
          cpu = cpu_stats stat;
          cpu_load = total_usage (cpu_usage cpu);
          load = total_min_max cpu_load total_load min_load max_load
      in stat_loop rest mem load)"

definition json_of_float :: "real option \<Rightarrow> json" where
  "json_of_float x = (case x of None \<Rightarrow> JNull | Some r \<Rightarrow> JFloat r)"

definition cpu_usage_of :: "sample \<Rightarrow> sample \<Rightarrow> (string \<times> json) list" where
  "cpu_usage_of first_s last_s =
     [(''total'', JInt (total_usage (cpu_usage (cpu_stats last_s))
                        - total_usage (cpu_usage (cpu_stats first_s))))]"

definition memory_usage_of ::
  "real \<times> real option \<times> real option \<Rightarrow> nat \<Rightarrow> (string \<times> json) list" where
  "memory_usage_of mem stats_len =
     (case mem of (total_memory, min_memory, max_memory) \<Rightarrow>
        [(''total'', JFloat total_memory),
         (''ave'', JFloat (total_memory / real stats_len)),
         (''max'', json_of_float max_memory),
         (''min'', json_of_float min_memory)])"

definition network_usage_of :: "sample \<Rightarrow> sample \<Rightarrow> (string \<times> json) list" where
  "network_usage_of first_s last_s =
     [(''tx_kb'', JFloat (real_of_int (tx_bytes (network last_s) - tx_bytes (network first_s)) / 1024)),
      (''rx_kb'', JFloat (real_of_int (rx_bytes (network last_s) - rx_bytes (network first_s)) / 1024)),
      (''tx_packets'', JInt (tx_packets (network last_s) - tx_packets (network first_s))),
      (''rx_packets'', JInt (rx_packets (network last_s) - rx_packets (network first_s))),
      (''tx_errors'', JInt (tx_errors (network last_s) - tx_errors (network first_s))),
      (''rx_errors'', JInt (rx_errors (network last_s) - rx_errors (network first_s))),
      (''tx_dropped'', JInt (tx_dropped (network last_s) - tx_dropped (network first_s))),
      (''rx_dropped'', JInt (rx_dropped (network last_s) - rx_dropped (network first_s)))]"

text \<open>
  The body of the loop of \<open>get_dockerstats_metrics\<close> for a container that matched.
  \<open>parse_ts\<close> stands for \<open>int(dateutil.parser.parse(...).strftime('%s'))\<close>, with
  \<open>None\<close> where the library raises \<open>ValueError\<close>. \<open>value['stats'][0]\<close> raises
  \<open>TypeError\<close> on \<open>None\<close> and \<open>IndexError\<close> on the empty list.
\<close>

definition container_records ::
  "(string \<Rightarrow> int option) \<Rightarrow> string \<Rightarrow> container_value \<Rightarrow> error + metric list" where
  "container_records parse_ts container_name val =
     (case stats val of
        None \<Rightarrow> Inl TypeError
      | Some [] \<Rightarrow> Inl IndexError
      | Some (s0 # ss) \<Rightarrow>
          (case parse_ts (read s0) of
             None \<Rightarrow> Inl ValueError
           | Some ts \<Rightarrow>
               (let sts = s0 # ss;
                    stats_len = length sts;
                    (mem, load) = stat_loop sts (0, None, None) (0, None, None);
                    first_s = sts ! 0;
                    last_s = sts ! (stats_len - 1);
                    system_cpu = system_cpu_usage (cpu_stats last_s)
                                 - system_cpu_usage (cpu_stats first_s)
                in Inr [format_data ''cpu.usage'' container_name ts (cpu_usage_of first_s last_s),
                        format_data ''memory.usage'' container_name ts
                          (memory_usage_of mem stats_len),
                        format_data ''network.usage'' container_name ts
                          (network_usage_of first_s last_s)])))"

subsection \<open>One collection cycle\<close>

definition strip_slash :: "string \<Rightarrow> string" where
  "strip_slash name = filter (\<lambda>c. c \<noteq> CHR ''/'') name"

text \<open>
  The loop over the aliases. \<open>matcher\<close> is what the module bound to
  \<open>match_container_name\<close>: \<open>None\<close> when the name is unbound, and then the first call
  raises \<open>NameError\<close>.
\<close>

fun first_match ::
  "(string \<Rightarrow> container_value \<Rightarrow> bool) option \<Rightarrow> container_value \<Rightarrow> string list
     \<Rightarrow> error + string option" where
  "first_match matcher val [] = Inr None"
| "first_match None val (name # names) = Inl (NameError ''match_container_name'')"
| "first_match (Some f) val (name # names) =
     (if f (strip_slash name) val then Inr (Some (strip_slash name))
      else first_match (Some f) val names)"


text \<open>
  The loop over \<open>machine_stats.items()\<close>: a container without a matching alias is
  skipped, the records of a matching one are stored under the matching name. No
  exception is caught here: the first one ends the loop and the function.
\<close>

fun aggregate_all ::
  "(string \<Rightarrow> int option) \<Rightarrow> (string \<Rightarrow> container_value \<Rightarrow> bool) option \<Rightarrow> machine_stats
     \<Rightarrow> payload \<Rightarrow> error + payload" where
  "aggregate_all parse_ts matcher [] payload = Inr payload"
| "aggregate_all parse_ts matcher ((key, val) # items) payload =
     (case first_match matcher val (aliases val) of
        Inl e \<Rightarrow> Inl e
      | Inr None \<Rightarrow> aggregate_all parse_ts matcher items payload
      | Inr (Some container_name) \<Rightarrow>
          (case container_records parse_ts container_name val of
             Inl e \<Rightarrow> Inl e
           | Inr recs \<Rightarrow>
               aggregate_all parse_ts matcher items (dict_set container_name recs payload)))"

text \<open>
  A running container as \<open>docker_client\<close> shows it: its id, its names and its stats
  stream. The processes are started and joined one after the other, so
  \<open>machine_stats\<close> is filled in the order of the containers. The result is the payload
  handed to \<open>send\<close>, or the exception that ends the cycle before \<open>send\<close> is reached.
\<close>

record container =
  Id :: string
  Names :: "string list"
  stream :: "stream_item list"

fun sample_all :: "(string \<Rightarrow> nat \<Rightarrow> bool) \<Rightarrow> nat \<Rightarrow> container list \<Rightarrow> machine_stats \<Rightarrow> machine_stats" where
  "sample_all time_up interval [] machine_stats = machine_stats"
| "sample_all time_up interval (c # cs) machine_stats =
     sample_all time_up interval cs
       (get_stats_from_daemon (time_up (Id c)) (stream c) (Id c) (Names c) machine_stats interval)"

definition get_dockerstats_metrics ::
  "(string \<Rightarrow> int option) \<Rightarrow> (string \<Rightarrow> container_value \<Rightarrow> bool) option
     \<Rightarrow> (string \<Rightarrow> nat \<Rightarrow> bool) \<Rightarrow> container list \<Rightarrow> error + payload" where
  "get_dockerstats_metrics parse_ts matcher time_up containers =
     (let interval = 60;
          machine_stats = sample_all time_up interval containers []
      in aggregate_all parse_ts matcher machine_stats [])"

section \<open>collector.py\<close>

subsection \<open>The ingestion endpoint\<close>

text \<open>
  How a call of \<open>on_post\<close> ends: the response it filled in (status, content type
  and body), the \<open>falcon.HTTPBadRequest\<close> it raised (title and description), or
  another exception that leaves the method. The framework answers the second with
  status 400 and the third with status 500.
\<close>

datatype post_outcome =
  Response nat string string
| HTTPBadRequest string string
| Uncaught error

fun http_status :: "post_outcome \<Rightarrow> nat" where
  "http_status (Response st content_type b) = st"
| "http_status (HTTPBadRequest title description) = 400"
| "http_status (Uncaught e) = 500"

text \<open>
  \<open>spawned\<close> lists the handler processes the call started, each with the arguments of
  \<open>handler.process\<close>. A process is started and never joined: the call does not run
  the writer, and nothing of the store is among its arguments. \<open>json_loads\<close> stands
  for \<open>json.loads(body.decode())\<close>, \<open>None\<close> where it raises.
\<close>

record 'e post_result =
  outcome :: post_outcome
  spawned :: "('e \<times> string) list"
  post_logged :: "string list"

definition on_post :: "(string \<Rightarrow> 'e option) \<Rightarrow> string \<Rightarrow> string \<Rightarrow> 'e post_result" where
  "on_post json_loads remote_ip body =
     (if body = [] then
        \<lparr>outcome = HTTPBadRequest ''Empty request body'' ''A valid JSON document is required.'',
         spawned = [],
         post_logged = [''Empty body provided when returning a command result.'']\<rparr>
      else
        (case json_loads body of
           None \<Rightarrow> \<lparr>outcome = Uncaught ValueError, spawned = [], post_logged = []\<rparr>
         | Some entry \<Rightarrow>
             \<lparr>outcome = Response 200 ''application/json'' ''{}'',
              spawned = [(entry, remote_ip)],
              post_logged = []\<rparr>))"

subsection \<open>The writer\<close>

text \<open>
  \<open>metric['tags']['remote_ip'] = remote_ip\<close> on one record of the payload. The payload
  was decoded from JSON, so no two records share a dictionary.
\<close>

definition tag_metric :: "string \<Rightarrow> metric \<Rightarrow> metric" where
  "tag_metric remote_ip m = m\<lparr>tags := dict_set ''remote_ip'' remote_ip (tags m)\<rparr>"

text \<open>
  What a run of the writer leaves behind: the payload after the in-place tagging, the
  batches handed to \<open>influx_client.write_points\<close> in call order, and the messages
  given to \<open>logger.error\<close>.
\<close>

record writer_state =
  entry_after :: payload
  write_calls :: "metric list list"
  logged :: "string list"

text \<open>
  The two loops inside the \<open>try\<close>. The store is outside the program:
  \<open>write_points calls batch\<close> says whether the write of \<open>batch\<close>, issued after the
  writes \<open>calls\<close> of this client, raises (\<open>Some\<close> of the exception's message) or
  returns. The third component of the result is the exception that left the loops.
  \<open>entry\<close> is the list of the items of the payload: the keys of a dict are distinct,
  so \<open>entry[container]\<close> is the value paired with \<open>container\<close>. The payload has the
  shape the endpoint documents (every record with its \<open>tags\<close> dictionary).
\<close>

fun write_loop ::
  "(metric list list \<Rightarrow> metric list \<Rightarrow> string option) \<Rightarrow> string \<Rightarrow> payload \<Rightarrow> metric list list
     \<Rightarrow> payload \<times> metric list list \<times> string option" where
  "write_loop write_points remote_ip [] calls = ([], calls, None)"
| "write_loop write_points remote_ip ((container, ms) # rest) calls =
     (let ms' = map (tag_metric remote_ip) ms
      in case write_points calls ms' of
           Some e \<Rightarrow> ((container, ms') # rest, calls @ [ms'], Some e)
         | None \<Rightarrow>
             (case write_loop write_points remote_ip rest (calls @ [ms']) of
                (rest', calls', r) \<Rightarrow> ((container, ms') # rest', calls', r)))"

text \<open>
  The writer itself. The \<open>except Exception\<close> branch takes every exception of the
  loops, logs it and returns \<open>ignore_fail\<close>. The first component of the result says
  how the call ends: \<open>Inr\<close> of the value returned, or \<open>Inl\<close> of an exception that
  leaves the call.
\<close>

definition get_metadata_default ::
  "(metric list list \<Rightarrow> metric list \<Rightarrow> string option) \<Rightarrow> payload \<Rightarrow> string \<Rightarrow> bool
     \<Rightarrow> (string + bool) \<times> writer_state" where
  "get_metadata_default write_points entry remote_ip ignore_fail =
     (case write_loop write_points remote_ip entry [] of
        (entry', calls, None) \<Rightarrow>
          (Inr True, \<lparr>entry_after = entry', write_calls = calls, logged = []\<rparr>)
      | (entry', calls, Some e) \<Rightarrow>
          (Inr ignore_fail, \<lparr>entry_after = entry', write_calls = calls, logged = [e]\<rparr>))"

text \<open>
  \<open>process\<close> makes a client of its own (\<open>write_points\<close> starts from no calls) and
  calls the writer with \<open>ignore_fail=False\<close>; the value the writer returns is dropped
  and \<open>process\<close> returns \<open>None\<close>. The debug line is below the logger's level.
\<close>

definition process ::
  "(metric list list \<Rightarrow> metric list \<Rightarrow> string option) \<Rightarrow> payload \<Rightarrow> string
     \<Rightarrow> (string + unit) \<times> writer_state" where
  "process write_points entry remote_ip =
     (case get_metadata_default write_points entry remote_ip False of
        (Inl e, st) \<Rightarrow> (Inl e, st)
      | (Inr b, st) \<Rightarrow> (Inr (), st))"

subsection \<open>Notions used to state the writer's properties\<close>

text \<open>
  The payload with every record tagged, and the batches a run without failure hands to
  the store: one per container, in the order of the payload.
\<close>

definition tagged_entry :: "string \<Rightarrow> payload \<Rightarrow> payload" where
  "tagged_entry remote_ip entry =
     map (\<lambda>item. (fst item, map (tag_metric remote_ip) (snd item))) entry"

definition tagged_batches :: "string \<Rightarrow> payload \<Rightarrow> metric list list" where
  "tagged_batches remote_ip entry = map snd (tagged_entry remote_ip entry)"

text \<open>
  Two records that differ at most in the tag \<open>remote_ip\<close>: measurement, timestamp and
  fields are equal, and so are the other tags, in their order.
\<close>

definition same_but_remote_ip :: "metric \<Rightarrow> metric \<Rightarrow> bool" where
  "same_but_remote_ip m m' =
     (measurement m' = measurement m
      \<and> timestamp m' = timestamp m
      \<and> fields_dict m' = fields_dict m
      \<and> filter (\<lambda>tag. fst tag \<noteq> ''remote_ip'') (tags m')
          = filter (\<lambda>tag. fst tag \<noteq> ''remote_ip'') (tags m))"

section \<open>Inputs of the worked examples\<close>

text \<open>
  The examples below run the definitions on these inputs: a timestamp parser that knows
  one instant, a sample with the given memory reading (bytes), CPU counter and network
  counters, a clock that never reaches \<open>end_time\<close>, a store that takes every write,
  a store that refuses every write, a store that takes \<open>n\<close> writes and refuses the
  later ones, and a decoder that knows two documents.
\<close>

definition ts_fixture :: "string \<Rightarrow> int option" where
  "ts_fixture s = (if s = ''2015-10-28T02:40:00Z'' then Some 1446000000 else None)"

definition sample_fixture :: "int \<Rightarrow> int \<Rightarrow> int \<Rightarrow> sample" where
  "sample_fixture mem cpu net =
     \<lparr>read = ''2015-10-28T02:40:00Z'',
      memory_stats = \<lparr>usage = mem\<rparr>,
      cpu_stats = \<lparr>cpu_usage = \<lparr>total_usage = cpu\<rparr>, system_cpu_usage = 10 * cpu\<rparr>,
      network = \<lparr>tx_bytes = 1024 * net, rx_bytes = 2048 * net,
                 tx_packets = net, rx_packets = 2 * net,
                 tx_errors = 0, rx_errors = 0,
                 tx_dropped = 0, rx_dropped = 0\<rparr>\<rparr>"

definition no_timeout :: "string \<Rightarrow> nat \<Rightarrow> bool" where
  "no_timeout container_id n = False"

definition store_up :: "metric list list \<Rightarrow> metric list \<Rightarrow> string option" where
  "store_up calls batch = None"

definition store_down :: "metric list list \<Rightarrow> metric list \<Rightarrow> string option" where
  "store_down calls batch = Some ''Connection refused''"

definition store_down_after :: "nat \<Rightarrow> metric list list \<Rightarrow> metric list \<Rightarrow> string option" where
  "store_down_after n calls batch =
     (if length calls < n then None else Some ''Connection refused'')"

definition point_fixture :: "string \<Rightarrow> string \<Rightarrow> metric" where
  "point_fixture measurement_name container =
     format_data measurement_name container 1446000000 [(''total'', JInt 5)]"

definition loads_fixture :: "string \<Rightarrow> payload option" where
  "loads_fixture body =
     (if body = ''{}'' then Some []
      else if body = ''{\"c1\": []}'' then Some [(''c1'', [])]
      else None)"

section \<open>The aggregation of one series\<close>

lemma total_min_max_eq:
  "total_min_max stat t mn mx =
     (t + stat,
      (case mn of None \<Rightarrow> Some stat | Some m \<Rightarrow> Some (min stat m)),
      (case mx of None \<Rightarrow> Some stat | Some m \<Rightarrow> Some (max stat m)))"
  by (cases mn; cases mx) (auto simp: total_min_max_def min_def max_def)

lemma Min_insert_min:
  fixes a :: "'a::linorder"
  assumes "finite S"
  shows "Min (insert (min a b) S) = Min (insert b (insert a S))"
proof (cases "S = {}")
  case True
  then show ?thesis by (simp add: min.commute)
next
  case False
  with assms show ?thesis by (simp add: min.assoc min.left_commute min.commute)
qed

lemma Max_insert_max:
  fixes a :: "'a::linorder"
  assumes "finite S"
  shows "Max (insert (max a b) S) = Max (insert b (insert a S))"
proof (cases "S = {}")
  case True
  then show ?thesis by (simp add: max.commute)
next
  case False
  with assms show ?thesis by (simp add: max.assoc max.left_commute max.commute)
qed

lemma stat_loop_mem_seeded:
  "fst (stat_loop sts (t, Some mn, Some mx) ld) =
     (t + sum_list (map memory_kb sts),
      Some (Min (insert mn (set (map memory_kb sts)))),
      Some (Max (insert mx (set (map memory_kb sts)))))"
proof (induction sts arbitrary: t mn mx ld)
  case Nil
  show ?case by simp
next
  case (Cons s sts)
  obtain a b c where ld: "ld = (a, b, c)" by (cases ld) auto
  have mn: "Min (insert (min (memory_kb s) mn) (memory_kb ` set sts)) =
            Min (insert mn (insert (memory_kb s) (memory_kb ` set sts)))"
    by (rule Min_insert_min) simp
  have mx: "Max (insert (max (memory_kb s) mx) (memory_kb ` set sts)) =
            Max (insert mx (insert (memory_kb s) (memory_kb ` set sts)))"
    by (rule Max_insert_max) simp
  show ?case
    unfolding ld by (simp add: total_min_max_eq Cons.IH mn mx add.assoc Let_def del: Min_insert Max_insert)
qed

lemma stat_loop_mem:
  assumes "sts \<noteq> []"
  shows "fst (stat_loop sts (0, None, None) ld) =
     (sum_list (map memory_kb sts),
      Some (Min (set (map memory_kb sts))),
      Some (Max (set (map memory_kb sts))))"
proof -
  obtain s rest where sts: "sts = s # rest" using assms by (cases sts) auto
  obtain a b c where ld: "ld = (a, b, c)" by (cases ld) auto
  show ?thesis
    unfolding sts ld by (simp add: total_min_max_eq stat_loop_mem_seeded Let_def)
qed

lemma container_records_ok:
  assumes "stats val = Some sts" and "sts \<noteq> []" and "parse_ts (read (hd sts)) = Some ts"
  shows "container_records parse_ts name val =
     Inr [format_data ''cpu.usage'' name ts (cpu_usage_of (hd sts) (last sts)),
          format_data ''memory.usage'' name ts
            (memory_usage_of (sum_list (map memory_kb sts),
                              Some (Min (set (map memory_kb sts))),
                              Some (Max (set (map memory_kb sts)))) (length sts)),
          format_data ''network.usage'' name ts (network_usage_of (hd sts) (last sts))]"
proof -
  obtain s rest where sts: "sts = s # rest" using assms(2) by (cases sts) auto
  have lst: "(s # rest) ! (length (s # rest) - 1) = last (s # rest)"
    by (simp add: last_conv_nth)
  have loop: "stat_loop (s # rest) (0, None, None) (0, None, None) =
      ((sum_list (map memory_kb (s # rest)),
        Some (Min (set (map memory_kb (s # rest)))),
        Some (Max (set (map memory_kb (s # rest))))),
       snd (stat_loop (s # rest) (0, None, None) (0, None, None)))"
    using stat_loop_mem [of "s # rest" "(0, None, None)"] by (simp add: prod_eq_iff)
  show ?thesis
    using assms(1,3) unfolding sts container_records_def
    apply (simp only: option.case list.case Let_def)
    apply (subst loop)
    apply (simp only: prod.case lst)
    apply simp
    done
qed

text \<open>
  C3. For a series of length \<open>L \<ge> 2\<close> the \<open>memory.usage\<close> record has \<open>total\<close> equal
  to the sum of the samples' memory readings in kB and \<open>ave\<close> equal to that total
  divided by \<open>L\<close>.
\<close>

theorem memory_total_ave:
  assumes "stats val = Some sts" and "2 \<le> length sts" and "parse_ts (read (hd sts)) = Some ts"
  shows "\<exists>c m n. container_records parse_ts name val = Inr [c, m, n]
           \<and> measurement m = ''memory.usage''
           \<and> map_of (fields_dict m) ''total''
               = Some (JFloat (\<Sum>s\<leftarrow>sts. real_of_int (usage (memory_stats s)) / 1024))
           \<and> map_of (fields_dict m) ''ave''
               = Some (JFloat ((\<Sum>s\<leftarrow>sts. real_of_int (usage (memory_stats s)) / 1024)
                               / real (length sts)))"
proof -
  from assms(2) have ne: "sts \<noteq> []" by auto
  have kb: "map memory_kb sts = map (\<lambda>s. real_of_int (usage (memory_stats s)) / 1024) sts"
    by (simp add: memory_kb_def)
  have "container_records parse_ts name val =
     Inr [format_data ''cpu.usage'' name ts (cpu_usage_of (hd sts) (last sts)),
          format_data ''memory.usage'' name ts
            (memory_usage_of (sum_list (map memory_kb sts),
                              Some (Min (set (map memory_kb sts))),
                              Some (Max (set (map memory_kb sts)))) (length sts)),
          format_data ''network.usage'' name ts (network_usage_of (hd sts) (last sts))]"
    using assms(1) ne assms(3) by (rule container_records_ok)
  then show ?thesis
    unfolding kb by (simp add: format_data_def memory_usage_of_def)
qed

theorem memory_total_ave_witness:
  "stats \<lparr>aliases = [''/web''], stats = Some [sample_fixture 2048 5 1, sample_fixture 4096 9 2]\<rparr>
     = Some [sample_fixture 2048 5 1, sample_fixture 4096 9 2]
   \<and> 2 \<le> length [sample_fixture 2048 5 1, sample_fixture 4096 9 2]
   \<and> ts_fixture (read (hd [sample_fixture 2048 5 1, sample_fixture 4096 9 2])) = Some 1446000000
   \<and> (\<exists>c m n. container_records ts_fixture ''web''
                 \<lparr>aliases = [''/web''],
                  stats = Some [sample_fixture 2048 5 1, sample_fixture 4096 9 2]\<rparr> = Inr [c, m, n]
          \<and> measurement m = ''memory.usage''
          \<and> map_of (fields_dict m) ''total'' = Some (JFloat 6)
          \<and> map_of (fields_dict m) ''ave'' = Some (JFloat 3))"
proof -
  let ?sts = "[sample_fixture 2048 5 1, sample_fixture 4096 9 2]"
  let ?val = "\<lparr>aliases = [''/web''], stats = Some ?sts\<rparr>"
  have h1: "stats ?val = Some ?sts" by simp
  have h2: "2 \<le> length ?sts" by simp
  have h3: "ts_fixture (read (hd ?sts)) = Some 1446000000"
    by (simp add: ts_fixture_def sample_fixture_def)
  show ?thesis
    using h1 h2 h3
      memory_total_ave [where val = ?val and sts = ?sts and parse_ts = ts_fixture
                          and ts = 1446000000 and name = "''web''"]
    by (simp add: sample_fixture_def)
qed

text \<open>
  C4. For a non-empty series the \<open>min\<close> and \<open>max\<close> of the \<open>memory.usage\<close> record are
  the least and the greatest of the samples' memory readings in kB, whatever their
  sign.
\<close>

theorem memory_min_max:
  assumes "stats val = Some sts" and "sts \<noteq> []" and "parse_ts (read (hd sts)) = Some ts"
  shows "\<exists>c m n. container_records parse_ts name val = Inr [c, m, n]
           \<and> measurement m = ''memory.usage''
           \<and> map_of (fields_dict m) ''min''
               = Some (JFloat (Min (set (map (\<lambda>s. real_of_int (usage (memory_stats s)) / 1024) sts))))
           \<and> map_of (fields_dict m) ''max''
               = Some (JFloat (Max (set (map (\<lambda>s. real_of_int (usage (memory_stats s)) / 1024) sts))))"
proof -
  have kb: "map memory_kb sts = map (\<lambda>s. real_of_int (usage (memory_stats s)) / 1024) sts"
    by (simp add: memory_kb_def)
  have "container_records parse_ts name val =
     Inr [format_data ''cpu.usage'' name ts (cpu_usage_of (hd sts) (last sts)),
          format_data ''memory.usage'' name ts
            (memory_usage_of (sum_list (map memory_kb sts),
                              Some (Min (set (map memory_kb sts))),
                              Some (Max (set (map memory_kb sts)))) (length sts)),
          format_data ''network.usage'' name ts (network_usage_of (hd sts) (last sts))]"
    using assms by (rule container_records_ok)
  then show ?thesis
    unfolding kb by (simp add: format_data_def memory_usage_of_def json_of_float_def)
qed

theorem memory_min_max_witness:
  "stats \<lparr>aliases = [''/web''],
          stats = Some [sample_fixture (- 2048) 5 1, sample_fixture (- 1024) 9 2,
                        sample_fixture (- 3072) 9 2]\<rparr>
     = Some [sample_fixture (- 2048) 5 1, sample_fixture (- 1024) 9 2, sample_fixture (- 3072) 9 2]
   \<and> [sample_fixture (- 2048) 5 1, sample_fixture (- 1024) 9 2, sample_fixture (- 3072) 9 2] \<noteq> []
   \<and> ts_fixture (read (hd [sample_fixture (- 2048) 5 1, sample_fixture (- 1024) 9 2,
                            sample_fixture (- 3072) 9 2])) = Some 1446000000
   \<and> (\<exists>c m n. container_records ts_fixture ''web''
                 \<lparr>aliases = [''/web''],
                  stats = Some [sample_fixture (- 2048) 5 1, sample_fixture (- 1024) 9 2,
                                sample_fixture (- 3072) 9 2]\<rparr> = Inr [c, m, n]
          \<and> measurement m = ''memory.usage''
          \<and> map_of (fields_dict m) ''min'' = Some (JFloat (- 3))
          \<and> map_of (fields_dict m) ''max'' = Some (JFloat (- 1)))"
proof -
  let ?sts = "[sample_fixture (- 2048) 5 1, sample_fixture (- 1024) 9 2,
               sample_fixture (- 3072) 9 2]"
  let ?val = "\<lparr>aliases = [''/web''], stats = Some ?sts\<rparr>"
  have h1: "stats ?val = Some ?sts" by simp
  have h2: "?sts \<noteq> []" by simp
  have h3: "ts_fixture (read (hd ?sts)) = Some 1446000000"
    by (simp add: ts_fixture_def sample_fixture_def)
  show ?thesis
    using h1 h3
      memory_min_max [where val = ?val and sts = ?sts and parse_ts = ts_fixture
                        and ts = 1446000000 and name = "''web''"]
    by (simp add: sample_fixture_def)
qed

text \<open>
  C2, as the code has it. For a series with at least one sample, \<open>cpu.usage.total\<close> is
  the CPU counter of the last sample minus that of the first, and every field of
  \<open>network.usage\<close> is the last sample's counter minus the first's, the byte counters
  divided by 1024. The difference is an integer subtraction: a negative one is kept as
  it is. A series of one sample gets the difference of the sample with itself.
\<close>

theorem cumulative_deltas:
  assumes "stats val = Some sts" and "sts \<noteq> []" and "parse_ts (read (hd sts)) = Some ts"
  shows "\<exists>c m n. container_records parse_ts name val = Inr [c, m, n]
           \<and> measurement c = ''cpu.usage''
           \<and> fields_dict c =
               [(''total'', JInt (total_usage (cpu_usage (cpu_stats (last sts)))
                                  - total_usage (cpu_usage (cpu_stats (hd sts)))))]
           \<and> measurement n = ''network.usage''
           \<and> fields_dict n =
               [(''tx_kb'', JFloat (real_of_int (tx_bytes (network (last sts))
                                                  - tx_bytes (network (hd sts))) / 1024)),
                (''rx_kb'', JFloat (real_of_int (rx_bytes (network (last sts))
                                                  - rx_bytes (network (hd sts))) / 1024)),
                (''tx_packets'', JInt (tx_packets (network (last sts)) - tx_packets (network (hd sts)))),
                (''rx_packets'', JInt (rx_packets (network (last sts)) - rx_packets (network (hd sts)))),
                (''tx_errors'', JInt (tx_errors (network (last sts)) - tx_errors (network (hd sts)))),
                (''rx_errors'', JInt (rx_errors (network (last sts)) - rx_errors (network (hd sts)))),
                (''tx_dropped'', JInt (tx_dropped (network (last sts)) - tx_dropped (network (hd sts)))),
                (''rx_dropped'', JInt (rx_dropped (network (last sts)) - rx_dropped (network (hd sts))))]"
proof -
  have "container_records parse_ts name val =
     Inr [format_data ''cpu.usage'' name ts (cpu_usage_of (hd sts) (last sts)),
          format_data ''memory.usage'' name ts
            (memory_usage_of (sum_list (map memory_kb sts),
                              Some (Min (set (map memory_kb sts))),
                              Some (Max (set (map memory_kb sts)))) (length sts)),
          format_data ''network.usage'' name ts (network_usage_of (hd sts) (last sts))]"
    using assms by (rule container_records_ok)
  then show ?thesis
    by (simp add: format_data_def cpu_usage_of_def network_usage_of_def)
qed

theorem cumulative_deltas_witness:
  "stats \<lparr>aliases = [''/web''],
          stats = Some [sample_fixture 2048 500 9, sample_fixture 1024 100 2]\<rparr>
     = Some [sample_fixture 2048 500 9, sample_fixture 1024 100 2]
   \<and> [sample_fixture 2048 500 9, sample_fixture 1024 100 2] \<noteq> []
   \<and> ts_fixture (read (hd [sample_fixture 2048 500 9, sample_fixture 1024 100 2]))
       = Some 1446000000
   \<and> (\<exists>c m n. container_records ts_fixture ''web''
                 \<lparr>aliases = [''/web''],
                  stats = Some [sample_fixture 2048 500 9, sample_fixture 1024 100 2]\<rparr>
               = Inr [c, m, n]
          \<and> measurement c = ''cpu.usage''
          \<and> fields_dict c = [(''total'', JInt (- 400))]
          \<and> measurement n = ''network.usage''
          \<and> fields_dict n =
               [(''tx_kb'', JFloat (- 7)), (''rx_kb'', JFloat (- 14)),
                (''tx_packets'', JInt (- 7)), (''rx_packets'', JInt (- 14)),
                (''tx_errors'', JInt 0), (''rx_errors'', JInt 0),
                (''tx_dropped'', JInt 0), (''rx_dropped'', JInt 0)])"
proof -
  let ?sts = "[sample_fixture 2048 500 9, sample_fixture 1024 100 2]"
  let ?val = "\<lparr>aliases = [''/web''], stats = Some ?sts\<rparr>"
  have h1: "stats ?val = Some ?sts" by simp
  have h3: "ts_fixture (read (hd ?sts)) = Some 1446000000"
    by (simp add: ts_fixture_def sample_fixture_def)
  show ?thesis
    using h1 h3
      cumulative_deltas [where val = ?val and sts = ?sts and parse_ts = ts_fixture
                           and ts = 1446000000 and name = "''web''"]
    by (simp add: sample_fixture_def)
qed

text \<open>
  C2 as the specification words it asks that a difference be computed only for a series
  of two samples or more. A series of one sample yields the three records all the same,
  with every difference 0.
\<close>

theorem cumulative_deltas_counterexample:
  "length [sample_fixture 1024 7 3] < 2
   \<and> container_records ts_fixture ''web''
        \<lparr>aliases = [''/web''], stats = Some [sample_fixture 1024 7 3]\<rparr>
      = Inr [format_data ''cpu.usage'' ''web'' 1446000000 [(''total'', JInt 0)],
             format_data ''memory.usage'' ''web'' 1446000000
               [(''total'', JFloat 1), (''ave'', JFloat 1), (''max'', JFloat 1), (''min'', JFloat 1)],
             format_data ''network.usage'' ''web'' 1446000000
               [(''tx_kb'', JFloat 0), (''rx_kb'', JFloat 0),
                (''tx_packets'', JInt 0), (''rx_packets'', JInt 0),
                (''tx_errors'', JInt 0), (''rx_errors'', JInt 0),
                (''tx_dropped'', JInt 0), (''rx_dropped'', JInt 0)]]"
  by (simp add: container_records_def sample_fixture_def ts_fixture_def total_min_max_def
        memory_kb_def cpu_usage_of_def memory_usage_of_def network_usage_of_def
        json_of_float_def Let_def)

section \<open>The filters\<close>

lemma match_all_but_sender_iff:
  "match_all_but_sender name val \<longleftrightarrow> ''sender'' \<notin> set (aliases val)"
  by (simp add: match_all_but_sender_def)



lemma takeWhile_all:
  assumes "\<forall>x \<in> set s. P x"
  shows "takeWhile P s = s" and "dropWhile P s = []"
  using assms by simp_all







text \<open>
  The two names below are read by \<open>int(hex, 16)\<close> through its prefix and its
  underscore rule.
\<close>

lemma UUID_prefix_and_underscore:
  "UUID ''0x7ac10b58cc1ef1b5320242ac130003''"
  "UUID ''f47ac10b_58cc1ef1b5320242ac13000''"
  by (simp_all add: UUID_def strip_chars_def int16_def skip_sign_def skip_prefix16_def
        py_isspace_def hexdigit_def)

text \<open>
  In \<open>get_dockerstats_metrics\<close> the aliases are the container's \<open>Names\<close>, which
  begin with a slash: no alias is the string \<open>sender\<close> there, and the filter depends
  on the name alone.
\<close>

lemma match_on_uuid_docker_names:
  assumes "list_all (\<lambda>a. a \<noteq> [] \<and> hd a = CHR ''/'') (aliases val)"
  shows "match_on_uuid name val \<longleftrightarrow> UUID name"
proof -
  from assms have "''sender'' \<notin> set (aliases val)"
    by (auto simp: list_all_iff)
  then show ?thesis by (simp add: match_on_uuid_def)
qed




lemma match_container_name_bound:
  "match_container_name ''ALL'' = Inr (Some match_all)"
  "match_container_name ''UUID'' = Inr (Some match_on_uuid)"
  by (simp_all add: match_container_name_def)

text \<open>
  C9. The policy value \<open>NO_CADVISOR\<close> makes the module evaluate the name
  \<open>match_all_but_cadvisor\<close>, which is not defined: loading the module ends with
  \<open>NameError\<close> and no predicate is bound. The function that excludes the sender's
  alias is \<open>match_all_but_sender\<close>; no policy value selects it.
\<close>

theorem no_cadvisor_policy_unbound:
  "match_container_name ''NO_CADVISOR'' = Inl (NameError ''match_all_but_cadvisor'')
   \<and> match_container_name ''NO_CADVISOR'' \<noteq> Inr (Some match_all_but_sender)"
  by (simp add: match_container_name_def)

section \<open>One collection cycle\<close>

lemma collect_breaks_mid_window:
  assumes "length collected_stats + length xs < interval"
    and "\<forall>n \<le> length collected_stats + length xs. \<not> time_up n"
  shows "collect time_up interval (map Line xs @ Broken # stats_obj) collected_stats = None"
  using assms
proof (induction xs arbitrary: collected_stats)
  case Nil
  show ?case by simp
next
  case (Cons x xs)
  from Cons.prems have "length (collected_stats @ [x]) + length xs < interval"
    and "\<forall>n \<le> length (collected_stats @ [x]) + length xs. \<not> time_up n"
    by simp_all
  then have "collect time_up interval (map Line xs @ Broken # stats_obj) (collected_stats @ [x])
               = None"
    by (rule Cons.IH)
  moreover from Cons.prems have "\<not> interval \<le> Suc (length collected_stats)"
    and "\<not> time_up (Suc (length collected_stats))"
    by simp_all
  ultimately show ?case by (simp add: Let_def)
qed

lemma aggregate_all_None_stats:
  assumes "stats val = None"
    and "first_match matcher val (aliases val) = Inr (Some container_name)"
  shows "aggregate_all parse_ts matcher ((key, val) # items) payload = Inl TypeError"
  using assms by (simp add: container_records_def)

text \<open>
  C1. Two containers are sampled; the stream of the first breaks after one sample, the
  second delivers its two samples. The sampler stores \<open>None\<close> as the series of the
  first container, and the aggregation then ends with \<open>TypeError\<close> at
  \<open>value['stats'][0]\<close>: no payload reaches \<open>send\<close>, the healthy container's records
  included. Sampled alone, the healthy container yields its three records.
\<close>

theorem broken_stream_aborts_cycle:
  "sample_all no_timeout 60
     [\<lparr>Id = ''a1'', Names = [''/web''], stream = [Line (sample_fixture 2048 5 1), Broken]\<rparr>,
      \<lparr>Id = ''b2'', Names = [''/db''],
        stream = [Line (sample_fixture 2048 5 1), Line (sample_fixture 4096 9 2)]\<rparr>] []
     = [(''a1'', \<lparr>aliases = [''/web''], stats = None\<rparr>),
        (''b2'', \<lparr>aliases = [''/db''],
                  stats = Some [sample_fixture 2048 5 1, sample_fixture 4096 9 2]\<rparr>)]
   \<and> get_dockerstats_metrics ts_fixture (Some match_all) no_timeout
       [\<lparr>Id = ''a1'', Names = [''/web''], stream = [Line (sample_fixture 2048 5 1), Broken]\<rparr>,
        \<lparr>Id = ''b2'', Names = [''/db''],
          stream = [Line (sample_fixture 2048 5 1), Line (sample_fixture 4096 9 2)]\<rparr>]
     = Inl TypeError
   \<and> get_dockerstats_metrics ts_fixture (Some match_all) no_timeout
       [\<lparr>Id = ''b2'', Names = [''/db''],
          stream = [Line (sample_fixture 2048 5 1), Line (sample_fixture 4096 9 2)]\<rparr>]
     = Inr [(''db'',
             [format_data ''cpu.usage'' ''db'' 1446000000 [(''total'', JInt 4)],
              format_data ''memory.usage'' ''db'' 1446000000
                [(''total'', JFloat 6), (''ave'', JFloat 3), (''max'', JFloat 4), (''min'', JFloat 2)],
              format_data ''network.usage'' ''db'' 1446000000
                [(''tx_kb'', JFloat 1), (''rx_kb'', JFloat 2),
                 (''tx_packets'', JInt 1), (''rx_packets'', JInt 2),
                 (''tx_errors'', JInt 0), (''rx_errors'', JInt 0),
                 (''tx_dropped'', JInt 0), (''rx_dropped'', JInt 0)]])]"
  by (simp add: get_dockerstats_metrics_def get_stats_from_daemon_def no_timeout_def
        match_all_def strip_slash_def container_records_def sample_fixture_def ts_fixture_def
        total_min_max_def memory_kb_def cpu_usage_of_def memory_usage_of_def
        network_usage_of_def json_of_float_def Let_def)

section \<open>The ingestion endpoint\<close>

text \<open>
  C5. A POST with an empty body ends with \<open>HTTPBadRequest\<close> (status 400) carrying a
  title and a description, and starts no handler process. A POST whose non-empty body
  decodes gets status 200 and the body \<open>{}\<close>; the handler process is started with the
  decoded payload and the caller's address, and the response is filled in without the
  writer having run.
\<close>

theorem on_post_contract:
  "outcome (on_post json_loads remote_ip []) =
     HTTPBadRequest ''Empty request body'' ''A valid JSON document is required.''
   \<and> http_status (outcome (on_post json_loads remote_ip [])) = 400
   \<and> spawned (on_post json_loads remote_ip []) = []
   \<and> (body \<noteq> [] \<and> json_loads body = Some entry \<longrightarrow>
        outcome (on_post json_loads remote_ip body) = Response 200 ''application/json'' ''{}''
        \<and> http_status (outcome (on_post json_loads remote_ip body)) = 200
        \<and> spawned (on_post json_loads remote_ip body) = [(entry, remote_ip)])"
  by (simp add: on_post_def)

theorem on_post_contract_witness:
  "''{\"c1\": []}'' \<noteq> []
   \<and> loads_fixture ''{\"c1\": []}'' = Some [(''c1'', [])]
   \<and> outcome (on_post loads_fixture ''10.0.0.5'' []) =
       HTTPBadRequest ''Empty request body'' ''A valid JSON document is required.''
   \<and> spawned (on_post loads_fixture ''10.0.0.5'' []) = []
   \<and> outcome (on_post loads_fixture ''10.0.0.5'' ''{\"c1\": []}'')
       = Response 200 ''application/json'' ''{}''
   \<and> spawned (on_post loads_fixture ''10.0.0.5'' ''{\"c1\": []}'')
       = [([(''c1'', [])], ''10.0.0.5'')]"
proof -
  have h1: "''{\"c1\": []}'' \<noteq> []" by simp
  have h2: "loads_fixture ''{\"c1\": []}'' = Some [(''c1'', [])]"
    by (simp add: loads_fixture_def)
  show ?thesis
    using h1 h2
      on_post_contract [where json_loads = loads_fixture and remote_ip = "''10.0.0.5''"
                          and body = "''{\"c1\": []}''" and entry = "[(''c1'', [])]"]
    by simp
qed

section \<open>The writer\<close>

lemma map_of_dict_set: "map_of (dict_set k v d) k = Some v"
  by (induction d) auto

lemma filter_dict_set:
  "filter (\<lambda>item. fst item \<noteq> k) (dict_set k v d) = filter (\<lambda>item. fst item \<noteq> k) d"
  by (induction d) auto

lemma tag_metric_remote_ip: "map_of (tags (tag_metric remote_ip m)) ''remote_ip'' = Some remote_ip"
  by (simp add: tag_metric_def map_of_dict_set)

lemma same_but_remote_ip_refl: "same_but_remote_ip m m"
  by (simp add: same_but_remote_ip_def)

lemma same_but_remote_ip_tag: "same_but_remote_ip m (tag_metric remote_ip m)"
  by (simp add: same_but_remote_ip_def tag_metric_def filter_dict_set)

lemma tagged_batches_Cons:
  "tagged_batches remote_ip ((container, ms) # rest)
     = map (tag_metric remote_ip) ms # tagged_batches remote_ip rest"
  by (simp add: tagged_batches_def tagged_entry_def)

lemma tagged_entry_Cons:
  "tagged_entry remote_ip ((container, ms) # rest)
     = (container, map (tag_metric remote_ip) ms) # tagged_entry remote_ip rest"
  by (simp add: tagged_entry_def)

lemma length_tagged_batches: "length (tagged_batches remote_ip entry) = length entry"
  by (simp add: tagged_batches_def tagged_entry_def)

lemma write_loop_all_pass:
  assumes "\<forall>j<length entry.
             write_points (calls @ take j (tagged_batches remote_ip entry))
               (tagged_batches remote_ip entry ! j) = None"
  shows "write_loop write_points remote_ip entry calls
           = (tagged_entry remote_ip entry, calls @ tagged_batches remote_ip entry, None)"
  using assms
proof (induction entry arbitrary: calls)
  case Nil
  show ?case by (simp add: tagged_entry_def tagged_batches_def)
next
  case (Cons item rest)
  obtain container ms where item: "item = (container, ms)" by (cases item)
  let ?b = "map (tag_metric remote_ip) ms"
  from Cons.prems [rule_format, of 0]
  have first: "write_points calls ?b = None"
    by (simp add: item tagged_batches_Cons)
  have "\<forall>j<length rest.
          write_points ((calls @ [?b]) @ take j (tagged_batches remote_ip rest))
            (tagged_batches remote_ip rest ! j) = None"
  proof (intro allI impI)
    fix j assume "j < length rest"
    with Cons.prems [rule_format, of "Suc j"] show
      "write_points ((calls @ [?b]) @ take j (tagged_batches remote_ip rest))
         (tagged_batches remote_ip rest ! j) = None"
      by (simp add: item tagged_batches_Cons)
  qed
  from Cons.IH [OF this] first show ?case
    by (simp add: item tagged_batches_Cons tagged_entry_Cons Let_def)
qed

lemma write_loop_first_failure:
  assumes "i < length entry"
    and "\<forall>j<i. write_points (calls @ take j (tagged_batches remote_ip entry))
                 (tagged_batches remote_ip entry ! j) = None"
    and "write_points (calls @ take i (tagged_batches remote_ip entry))
           (tagged_batches remote_ip entry ! i) = Some e"
  shows "write_loop write_points remote_ip entry calls
           = (tagged_entry remote_ip (take (Suc i) entry) @ drop (Suc i) entry,
              calls @ take (Suc i) (tagged_batches remote_ip entry),
              Some e)"
  using assms
proof (induction entry arbitrary: calls i)
  case Nil
  then show ?case by simp
next
  case (Cons item rest)
  obtain container ms where item: "item = (container, ms)" by (cases item)
  let ?b = "map (tag_metric remote_ip) ms"
  show ?case
  proof (cases i)
    case 0
    with Cons.prems(3) show ?thesis
      by (simp add: item tagged_batches_Cons tagged_entry_Cons tagged_entry_def Let_def)
  next
    case (Suc k)
    from Cons.prems(2) [rule_format, of 0] Suc
    have first: "write_points calls ?b = None"
      by (simp add: item tagged_batches_Cons)
    have k: "k < length rest" using Cons.prems(1) Suc by simp
    have pass: "\<forall>j<k. write_points ((calls @ [?b]) @ take j (tagged_batches remote_ip rest))
                        (tagged_batches remote_ip rest ! j) = None"
    proof (intro allI impI)
      fix j assume "j < k"
      with Cons.prems(2) [rule_format, of "Suc j"] Suc show
        "write_points ((calls @ [?b]) @ take j (tagged_batches remote_ip rest))
           (tagged_batches remote_ip rest ! j) = None"
        by (simp add: item tagged_batches_Cons)
    qed
    have fail: "write_points ((calls @ [?b]) @ take k (tagged_batches remote_ip rest))
                  (tagged_batches remote_ip rest ! k) = Some e"
      using Cons.prems(3) Suc by (simp add: item tagged_batches_Cons)
    from Cons.IH [OF k pass fail] first Suc show ?thesis
      by (simp add: item tagged_batches_Cons tagged_entry_Cons Let_def)
  qed
qed

lemma write_loop_frame:
  assumes "write_loop write_points remote_ip entry calls = (entry', calls', r)"
  shows "map fst entry' = map fst entry
         \<and> list_all2 (list_all2 same_but_remote_ip) (map snd entry) (map snd entry')"
  using assms
proof (induction entry arbitrary: calls entry' calls' r)
  case Nil
  then show ?case by simp
next
  case (Cons item rest)
  obtain container ms where item: "item = (container, ms)" by (cases item)
  let ?b = "map (tag_metric remote_ip) ms"
  have tagged: "list_all2 same_but_remote_ip ms ?b"
    by (simp add: list_all2_map2 list_all2_same same_but_remote_ip_tag)
  have untouched: "list_all2 (list_all2 same_but_remote_ip) (map snd rest) (map snd rest)"
    by (simp add: list_all2_same same_but_remote_ip_refl)
  show ?case
  proof (cases "write_points calls ?b")
    case (Some e)
    with Cons.prems have "entry' = (container, ?b) # rest"
      by (auto simp: item Let_def)
    with tagged untouched show ?thesis by (simp add: item)
  next
    case None
    obtain rest' c2 r2 where rec:
      "write_loop write_points remote_ip rest (calls @ [?b]) = (rest', c2, r2)"
      by (cases "write_loop write_points remote_ip rest (calls @ [?b])") auto
    with Cons.prems None have "entry' = (container, ?b) # rest'"
      by (auto simp: item Let_def)
    with Cons.IH [OF rec] tagged show ?thesis by (simp add: item)
  qed
qed

lemma get_metadata_default_all_pass:
  assumes "\<forall>j<length entry.
             write_points (take j (tagged_batches remote_ip entry))
               (tagged_batches remote_ip entry ! j) = None"
  shows "get_metadata_default write_points entry remote_ip ignore_fail
           = (Inr True,
              \<lparr>entry_after = tagged_entry remote_ip entry,
               write_calls = tagged_batches remote_ip entry,
               logged = []\<rparr>)"
proof -
  from assms have
    "\<forall>j<length entry.
       write_points ([] @ take j (tagged_batches remote_ip entry))
         (tagged_batches remote_ip entry ! j) = None"
    by simp
  from write_loop_all_pass [OF this] show ?thesis
    by (simp add: get_metadata_default_def)
qed

lemma get_metadata_default_first_failure:
  assumes "i < length entry"
    and "\<forall>j<i. write_points (take j (tagged_batches remote_ip entry))
                 (tagged_batches remote_ip entry ! j) = None"
    and "write_points (take i (tagged_batches remote_ip entry))
           (tagged_batches remote_ip entry ! i) = Some e"
  shows "get_metadata_default write_points entry remote_ip ignore_fail
           = (Inr ignore_fail,
              \<lparr>entry_after = tagged_entry remote_ip (take (Suc i) entry) @ drop (Suc i) entry,
               write_calls = take (Suc i) (tagged_batches remote_ip entry),
               logged = [e]\<rparr>)"
proof -
  from assms(2) have pass:
    "\<forall>j<i. write_points ([] @ take j (tagged_batches remote_ip entry))
             (tagged_batches remote_ip entry ! j) = None"
    by simp
  from assms(3) have fail:
    "write_points ([] @ take i (tagged_batches remote_ip entry))
       (tagged_batches remote_ip entry ! i) = Some e"
    by simp
  from write_loop_first_failure [OF assms(1) pass fail] show ?thesis
    by (simp add: get_metadata_default_def)
qed

lemma write_loop_calls_tagged:
  assumes "write_loop write_points remote_ip entry calls = (entry', calls', r)"
    and "\<forall>batch \<in> set calls. \<forall>m \<in> set batch. map_of (tags m) ''remote_ip'' = Some remote_ip"
  shows "\<forall>batch \<in> set calls'. \<forall>m \<in> set batch. map_of (tags m) ''remote_ip'' = Some remote_ip"
  using assms
proof (induction entry arbitrary: calls entry' calls' r)
  case Nil
  then show ?case by simp
next
  case (Cons item rest)
  obtain container ms where item: "item = (container, ms)" by (cases item)
  let ?b = "map (tag_metric remote_ip) ms"
  have more: "\<forall>batch \<in> set (calls @ [?b]). \<forall>m \<in> set batch.
                map_of (tags m) ''remote_ip'' = Some remote_ip"
    using Cons.prems(2) by (auto simp: tag_metric_remote_ip)
  show ?case
  proof (cases "write_points calls ?b")
    case (Some e)
    with Cons.prems(1) have "calls' = calls @ [?b]"
      by (auto simp: item Let_def)
    with more show ?thesis by simp
  next
    case None
    obtain rest' c2 r2 where rec:
      "write_loop write_points remote_ip rest (calls @ [?b]) = (rest', c2, r2)"
      by (cases "write_loop write_points remote_ip rest (calls @ [?b])") auto
    with Cons.prems(1) None have "calls' = c2"
      by (auto simp: item Let_def)
    with Cons.IH [OF rec more] show ?thesis by simp
  qed
qed

lemma write_loop_prefix:
  assumes "write_loop write_points remote_ip entry calls = (entry', calls', r)"
  shows "\<exists>n\<le>length entry.
           (entry \<noteq> [] \<longrightarrow> 0 < n)
           \<and> calls' = calls @ take n (tagged_batches remote_ip entry)
           \<and> entry' = tagged_entry remote_ip (take n entry) @ drop n entry"
  using assms
proof (induction entry arbitrary: calls entry' calls' r)
  case Nil
  then show ?case by (simp add: tagged_entry_def)
next
  case (Cons item rest)
  obtain container ms where item: "item = (container, ms)" by (cases item)
  let ?b = "map (tag_metric remote_ip) ms"
  show ?case
  proof (cases "write_points calls ?b")
    case (Some e)
    with Cons.prems have "calls' = calls @ [?b]" and "entry' = (container, ?b) # rest"
      by (auto simp: item Let_def)
    then have "calls' = calls @ take 1 (tagged_batches remote_ip (item # rest))
               \<and> entry' = tagged_entry remote_ip (take 1 (item # rest)) @ drop 1 (item # rest)"
      by (simp add: item tagged_batches_Cons tagged_entry_Cons tagged_entry_def)
    then show ?thesis
      by (intro exI [of _ 1]) simp
  next
    case None
    obtain rest' c2 r2 where rec:
      "write_loop write_points remote_ip rest (calls @ [?b]) = (rest', c2, r2)"
      by (cases "write_loop write_points remote_ip rest (calls @ [?b])") auto
    with Cons.prems None have out: "calls' = c2" "entry' = (container, ?b) # rest'"
      by (auto simp: item Let_def)
    from Cons.IH [OF rec] obtain n where n: "n \<le> length rest"
      and c2: "c2 = (calls @ [?b]) @ take n (tagged_batches remote_ip rest)"
      and rest': "rest' = tagged_entry remote_ip (take n rest) @ drop n rest"
      by blast
    from out c2 rest' have
      "calls' = calls @ take (Suc n) (tagged_batches remote_ip (item # rest))
       \<and> entry' = tagged_entry remote_ip (take (Suc n) (item # rest)) @ drop (Suc n) (item # rest)"
      by (simp add: item tagged_batches_Cons tagged_entry_Cons)
    with n show ?thesis
      by (intro exI [of _ "Suc n"]) simp
  qed
qed

lemma get_metadata_default_prefix:
  "\<exists>n\<le>length entry.
     (entry \<noteq> [] \<longrightarrow> 0 < n)
     \<and> write_calls (snd (get_metadata_default write_points entry remote_ip ignore_fail))
         = map (\<lambda>item. map (tag_metric remote_ip) (snd item)) (take n entry)
     \<and> entry_after (snd (get_metadata_default write_points entry remote_ip ignore_fail))
         = map (\<lambda>item. (fst item, map (tag_metric remote_ip) (snd item))) (take n entry)
           @ drop n entry"
proof -
  obtain entry' calls' r where loop:
    "write_loop write_points remote_ip entry [] = (entry', calls', r)"
    by (cases "write_loop write_points remote_ip entry []") auto
  have st: "write_calls (snd (get_metadata_default write_points entry remote_ip ignore_fail))
              = calls'"
    "entry_after (snd (get_metadata_default write_points entry remote_ip ignore_fail))
              = entry'"
    by (cases r; simp add: get_metadata_default_def loop)+
  from write_loop_prefix [OF loop] obtain n where "n \<le> length entry"
    and "entry \<noteq> [] \<longrightarrow> 0 < n"
    and "calls' = [] @ take n (tagged_batches remote_ip entry)"
    and "entry' = tagged_entry remote_ip (take n entry) @ drop n entry"
    by blast
  then show ?thesis
    unfolding st
    by (intro exI [of _ n]) (simp add: tagged_batches_def tagged_entry_def take_map)
qed

lemma get_metadata_default_calls_tagged:
  "\<forall>batch \<in> set (write_calls (snd (get_metadata_default write_points entry remote_ip ignore_fail))).
     \<forall>m \<in> set batch. map_of (tags m) ''remote_ip'' = Some remote_ip"
proof -
  obtain entry' calls' r where loop:
    "write_loop write_points remote_ip entry [] = (entry', calls', r)"
    by (cases "write_loop write_points remote_ip entry []") auto
  have calls: "write_calls (snd (get_metadata_default write_points entry remote_ip ignore_fail))
                 = calls'"
    by (cases r) (simp_all add: get_metadata_default_def loop)
  from write_loop_calls_tagged [OF loop] show ?thesis
    unfolding calls by simp
qed

text \<open>
  C6, as the code has it. The writer goes through the containers in the payload's
  order. For every container up to and including the first whose write fails (for all
  of them when no write fails) it sets the tag \<open>remote_ip\<close> of each of the
  container's records to the caller's address and then hands the store one batch, the
  list of these records. The containers after a failed write stay as they were: no
  tag, no write. Whatever the store does, the containers served are a beginning of the
  payload that includes its first container, and every record of every batch handed to
  the store carries the tag.
\<close>

theorem writer_one_batch_per_container:
  "((\<forall>j<length entry.
        write_points (take j (tagged_batches remote_ip entry))
          (tagged_batches remote_ip entry ! j) = None)
     \<longrightarrow> write_calls (snd (get_metadata_default write_points entry remote_ip ignore_fail))
           = map (\<lambda>item. map (tag_metric remote_ip) (snd item)) entry
         \<and> entry_after (snd (get_metadata_default write_points entry remote_ip ignore_fail))
           = map (\<lambda>item. (fst item, map (tag_metric remote_ip) (snd item))) entry)
   \<and> (i < length entry
        \<and> (\<forall>j<i. write_points (take j (tagged_batches remote_ip entry))
                     (tagged_batches remote_ip entry ! j) = None)
        \<and> write_points (take i (tagged_batches remote_ip entry))
             (tagged_batches remote_ip entry ! i) = Some e
     \<longrightarrow> write_calls (snd (get_metadata_default write_points entry remote_ip ignore_fail))
           = map (\<lambda>item. map (tag_metric remote_ip) (snd item)) (take (Suc i) entry)
         \<and> entry_after (snd (get_metadata_default write_points entry remote_ip ignore_fail))
           = map (\<lambda>item. (fst item, map (tag_metric remote_ip) (snd item))) (take (Suc i) entry)
             @ drop (Suc i) entry)
   \<and> (\<exists>n\<le>length entry.
        (entry \<noteq> [] \<longrightarrow> 0 < n)
        \<and> write_calls (snd (get_metadata_default write_points entry remote_ip ignore_fail))
            = map (\<lambda>item. map (tag_metric remote_ip) (snd item)) (take n entry)
        \<and> entry_after (snd (get_metadata_default write_points entry remote_ip ignore_fail))
            = map (\<lambda>item. (fst item, map (tag_metric remote_ip) (snd item))) (take n entry)
              @ drop n entry)
   \<and> (\<forall>batch \<in> set (write_calls
           (snd (get_metadata_default write_points entry remote_ip ignore_fail))).
        \<forall>m \<in> set batch. map_of (tags m) ''remote_ip'' = Some remote_ip)"
proof (intro conjI impI)
  assume pass: "\<forall>j<length entry.
        write_points (take j (tagged_batches remote_ip entry))
          (tagged_batches remote_ip entry ! j) = None"
  note r = get_metadata_default_all_pass [OF pass]
  show "write_calls (snd (get_metadata_default write_points entry remote_ip ignore_fail))
          = map (\<lambda>item. map (tag_metric remote_ip) (snd item)) entry"
    by (simp add: r tagged_batches_def tagged_entry_def)
  show "entry_after (snd (get_metadata_default write_points entry remote_ip ignore_fail))
          = map (\<lambda>item. (fst item, map (tag_metric remote_ip) (snd item))) entry"
    by (simp add: r tagged_entry_def)
next
  assume a: "i < length entry
        \<and> (\<forall>j<i. write_points (take j (tagged_batches remote_ip entry))
                     (tagged_batches remote_ip entry ! j) = None)
        \<and> write_points (take i (tagged_batches remote_ip entry))
             (tagged_batches remote_ip entry ! i) = Some e"
  then have i: "i < length entry"
    and pass: "\<forall>j<i. write_points (take j (tagged_batches remote_ip entry))
                       (tagged_batches remote_ip entry ! j) = None"
    and fail: "write_points (take i (tagged_batches remote_ip entry))
                 (tagged_batches remote_ip entry ! i) = Some e"
    by blast+
  note r = get_metadata_default_first_failure [OF i pass fail]
  show "write_calls (snd (get_metadata_default write_points entry remote_ip ignore_fail))
          = map (\<lambda>item. map (tag_metric remote_ip) (snd item)) (take (Suc i) entry)"
    by (simp add: r tagged_batches_def tagged_entry_def take_map)
  show "entry_after (snd (get_metadata_default write_points entry remote_ip ignore_fail))
          = map (\<lambda>item. (fst item, map (tag_metric remote_ip) (snd item))) (take (Suc i) entry)
            @ drop (Suc i) entry"
    by (simp add: r tagged_entry_def)
next
  show "\<exists>n\<le>length entry.
        (entry \<noteq> [] \<longrightarrow> 0 < n)
        \<and> write_calls (snd (get_metadata_default write_points entry remote_ip ignore_fail))
            = map (\<lambda>item. map (tag_metric remote_ip) (snd item)) (take n entry)
        \<and> entry_after (snd (get_metadata_default write_points entry remote_ip ignore_fail))
            = map (\<lambda>item. (fst item, map (tag_metric remote_ip) (snd item))) (take n entry)
              @ drop n entry"
    by (rule get_metadata_default_prefix)
next
  show "\<forall>batch \<in> set (write_calls
           (snd (get_metadata_default write_points entry remote_ip ignore_fail))).
        \<forall>m \<in> set batch. map_of (tags m) ''remote_ip'' = Some remote_ip"
    by (rule get_metadata_default_calls_tagged)
qed

theorem writer_one_batch_per_container_witness:
  "store_up [] (map (tag_metric ''10.0.0.5'')
      [point_fixture ''cpu.usage'' ''c1'', point_fixture ''memory.usage'' ''c1'',
       point_fixture ''network.usage'' ''c1'']) = None
   \<and> write_calls (snd (get_metadata_default store_up
        [(''c1'', [point_fixture ''cpu.usage'' ''c1'', point_fixture ''memory.usage'' ''c1'',
                   point_fixture ''network.usage'' ''c1''])] ''10.0.0.5'' False))
     = [[\<lparr>measurement = ''cpu.usage'', timestamp = 1446000000,
          tags = [(''container_name'', ''c1''), (''remote_ip'', ''10.0.0.5'')],
          fields_dict = [(''total'', JInt 5)]\<rparr>,
         \<lparr>measurement = ''memory.usage'', timestamp = 1446000000,
          tags = [(''container_name'', ''c1''), (''remote_ip'', ''10.0.0.5'')],
          fields_dict = [(''total'', JInt 5)]\<rparr>,
         \<lparr>measurement = ''network.usage'', timestamp = 1446000000,
          tags = [(''container_name'', ''c1''), (''remote_ip'', ''10.0.0.5'')],
          fields_dict = [(''total'', JInt 5)]\<rparr>]]
   \<and> length (concat (write_calls (snd (get_metadata_default store_up
        [(''c1'', [point_fixture ''cpu.usage'' ''c1'', point_fixture ''memory.usage'' ''c1'',
                   point_fixture ''network.usage'' ''c1''])] ''10.0.0.5'' False)))) = 3
   \<and> write_calls (snd (get_metadata_default (store_down_after 1)
        [(''c1'', [point_fixture ''cpu.usage'' ''c1'']),
         (''c2'', [point_fixture ''cpu.usage'' ''c2'']),
         (''c3'', [point_fixture ''cpu.usage'' ''c3''])] ''10.0.0.5'' False))
     = [[tag_metric ''10.0.0.5'' (point_fixture ''cpu.usage'' ''c1'')],
        [tag_metric ''10.0.0.5'' (point_fixture ''cpu.usage'' ''c2'')]]
   \<and> entry_after (snd (get_metadata_default (store_down_after 1)
        [(''c1'', [point_fixture ''cpu.usage'' ''c1'']),
         (''c2'', [point_fixture ''cpu.usage'' ''c2'']),
         (''c3'', [point_fixture ''cpu.usage'' ''c3''])] ''10.0.0.5'' False))
     = [(''c1'', [tag_metric ''10.0.0.5'' (point_fixture ''cpu.usage'' ''c1'')]),
        (''c2'', [tag_metric ''10.0.0.5'' (point_fixture ''cpu.usage'' ''c2'')]),
        (''c3'', [point_fixture ''cpu.usage'' ''c3''])]"
proof -
  let ?one = "[(''c1'', [point_fixture ''cpu.usage'' ''c1'', point_fixture ''memory.usage'' ''c1'',
                         point_fixture ''network.usage'' ''c1''])]"
  let ?three = "[(''c1'', [point_fixture ''cpu.usage'' ''c1'']),
                 (''c2'', [point_fixture ''cpu.usage'' ''c2'']),
                 (''c3'', [point_fixture ''cpu.usage'' ''c3''])]"
  let ?bs = "tagged_batches ''10.0.0.5'' ?three"
  have up: "\<forall>j<length ?one.
             store_up (take j (tagged_batches ''10.0.0.5'' ?one))
               (tagged_batches ''10.0.0.5'' ?one ! j) = None"
    by (simp add: store_up_def)
  have up0: "store_up [] (map (tag_metric ''10.0.0.5'') (snd (hd ?one))) = None"
    by (simp add: store_up_def)
  have down: "1 < length ?three
      \<and> (\<forall>j<1. store_down_after 1 (take j ?bs) (?bs ! j) = None)
      \<and> store_down_after 1 (take 1 ?bs) (?bs ! 1) = Some ''Connection refused''"
    by (simp add: store_down_after_def tagged_batches_def tagged_entry_def)
  note passing =
    writer_one_batch_per_container
      [where write_points = store_up and entry = ?one and remote_ip = "''10.0.0.5''"
         and ignore_fail = False,
       THEN conjunct1, THEN mp, OF up]
  note failing =
    writer_one_batch_per_container
      [where write_points = "store_down_after 1" and entry = ?three
         and remote_ip = "''10.0.0.5''" and i = 1 and e = "''Connection refused''"
         and ignore_fail = False,
       THEN conjunct2, THEN conjunct1, THEN mp, OF down]
  from passing have c1:
    "write_calls (snd (get_metadata_default store_up ?one ''10.0.0.5'' False))
       = map (\<lambda>item. map (tag_metric ''10.0.0.5'') (snd item)) ?one"
    by blast
  from failing have c2:
    "write_calls (snd (get_metadata_default (store_down_after 1) ?three ''10.0.0.5'' False))
       = map (\<lambda>item. map (tag_metric ''10.0.0.5'') (snd item)) (take (Suc 1) ?three)"
    and c3:
    "entry_after (snd (get_metadata_default (store_down_after 1) ?three ''10.0.0.5'' False))
       = map (\<lambda>item. (fst item, map (tag_metric ''10.0.0.5'') (snd item))) (take (Suc 1) ?three)
         @ drop (Suc 1) ?three"
    by blast+
  from up0 c1 c2 c3 show ?thesis
    by (simp add: tag_metric_def point_fixture_def format_data_def)
qed

text \<open>
  C6 as the specification words it speaks of every container of the payload. When the
  write of the first container fails, the loop is left: the second container's records
  are not tagged and no write is issued for them.
\<close>

theorem writer_one_batch_per_container_counterexample:
  "write_calls (snd (get_metadata_default store_down
        [(''c1'', [point_fixture ''cpu.usage'' ''c1'']),
         (''c2'', [point_fixture ''cpu.usage'' ''c2''])] ''10.0.0.5'' False))
     = [[\<lparr>measurement = ''cpu.usage'', timestamp = 1446000000,
          tags = [(''container_name'', ''c1''), (''remote_ip'', ''10.0.0.5'')],
          fields_dict = [(''total'', JInt 5)]\<rparr>]]
   \<and> entry_after (snd (get_metadata_default store_down
        [(''c1'', [point_fixture ''cpu.usage'' ''c1'']),
         (''c2'', [point_fixture ''cpu.usage'' ''c2''])] ''10.0.0.5'' False))
     = [(''c1'', [\<lparr>measurement = ''cpu.usage'', timestamp = 1446000000,
                   tags = [(''container_name'', ''c1''), (''remote_ip'', ''10.0.0.5'')],
                   fields_dict = [(''total'', JInt 5)]\<rparr>]),
        (''c2'', [\<lparr>measurement = ''cpu.usage'', timestamp = 1446000000,
                   tags = [(''container_name'', ''c2'')],
                   fields_dict = [(''total'', JInt 5)]\<rparr>])]"
  by (simp add: get_metadata_default_def store_down_def tag_metric_def point_fixture_def
        format_data_def Let_def)

text \<open>
  C8, as the code has it. When a write fails (the \<open>i\<close>-th, the ones before it having
  passed), the writer logs the exception and returns \<open>ignore_fail\<close>: it does not raise,
  whatever the flag. \<open>process\<close> passes \<open>False\<close> and drops the value returned, so it
  ends normally with the exception logged. When every write passes, the writer returns
  \<open>True\<close> and logs nothing.
\<close>

theorem writer_failure_logged_flag_returned:
  "(i < length entry
      \<and> (\<forall>j<i. write_points (take j (tagged_batches remote_ip entry))
                   (tagged_batches remote_ip entry ! j) = None)
      \<and> write_points (take i (tagged_batches remote_ip entry))
           (tagged_batches remote_ip entry ! i) = Some e
    \<longrightarrow> fst (get_metadata_default write_points entry remote_ip ignore_fail) = Inr ignore_fail
        \<and> logged (snd (get_metadata_default write_points entry remote_ip ignore_fail)) = [e]
        \<and> fst (process write_points entry remote_ip) = Inr ()
        \<and> logged (snd (process write_points entry remote_ip)) = [e])
   \<and> ((\<forall>j<length entry. write_points (take j (tagged_batches remote_ip entry))
                           (tagged_batches remote_ip entry ! j) = None)
    \<longrightarrow> fst (get_metadata_default write_points entry remote_ip ignore_fail) = Inr True
        \<and> logged (snd (get_metadata_default write_points entry remote_ip ignore_fail)) = [])"
proof (intro conjI impI)
  assume a: "i < length entry
      \<and> (\<forall>j<i. write_points (take j (tagged_batches remote_ip entry))
                   (tagged_batches remote_ip entry ! j) = None)
      \<and> write_points (take i (tagged_batches remote_ip entry))
           (tagged_batches remote_ip entry ! i) = Some e"
  then have i: "i < length entry"
    and pass: "\<forall>j<i. write_points (take j (tagged_batches remote_ip entry))
                       (tagged_batches remote_ip entry ! j) = None"
    and fail: "write_points (take i (tagged_batches remote_ip entry))
                 (tagged_batches remote_ip entry ! i) = Some e"
    by blast+
  note r = get_metadata_default_first_failure [OF i pass fail]
  show "fst (get_metadata_default write_points entry remote_ip ignore_fail) = Inr ignore_fail"
    by (simp add: r)
  show "logged (snd (get_metadata_default write_points entry remote_ip ignore_fail)) = [e]"
    by (simp add: r)
  show "fst (process write_points entry remote_ip) = Inr ()"
    by (simp add: process_def r)
  show "logged (snd (process write_points entry remote_ip)) = [e]"
    by (simp add: process_def r)
next
  assume a: "\<forall>j<length entry. write_points (take j (tagged_batches remote_ip entry))
                                  (tagged_batches remote_ip entry ! j) = None"
  note r = get_metadata_default_all_pass [OF a]
  show "fst (get_metadata_default write_points entry remote_ip ignore_fail) = Inr True"
    by (simp add: r)
  show "logged (snd (get_metadata_default write_points entry remote_ip ignore_fail)) = []"
    by (simp add: r)
qed

theorem writer_failure_logged_flag_returned_witness:
  "fst (get_metadata_default store_down [(''c1'', [point_fixture ''cpu.usage'' ''c1''])]
          ''10.0.0.5'' False) = Inr False
   \<and> logged (snd (get_metadata_default store_down [(''c1'', [point_fixture ''cpu.usage'' ''c1''])]
          ''10.0.0.5'' False)) = [''Connection refused'']
   \<and> fst (process store_down [(''c1'', [point_fixture ''cpu.usage'' ''c1''])] ''10.0.0.5'')
       = Inr ()
   \<and> logged (snd (process store_down [(''c1'', [point_fixture ''cpu.usage'' ''c1''])]
          ''10.0.0.5'')) = [''Connection refused'']
   \<and> fst (get_metadata_default store_up [(''c1'', [point_fixture ''cpu.usage'' ''c1''])]
          ''10.0.0.5'' False) = Inr True
   \<and> logged (snd (get_metadata_default store_up [(''c1'', [point_fixture ''cpu.usage'' ''c1''])]
          ''10.0.0.5'' False)) = []"
proof -
  let ?entry = "[(''c1'', [point_fixture ''cpu.usage'' ''c1''])]"
  let ?bs = "tagged_batches ''10.0.0.5'' ?entry"
  have down: "0 < length ?entry
      \<and> (\<forall>j<0. store_down (take j ?bs) (?bs ! j) = None)
      \<and> store_down (take 0 ?bs) (?bs ! 0) = Some ''Connection refused''"
    by (simp add: store_down_def)
  have up: "\<forall>j<length ?entry. store_up (take j ?bs) (?bs ! j) = None"
    by (simp add: store_up_def)
  note failing =
    writer_failure_logged_flag_returned
      [where write_points = store_down and entry = ?entry and remote_ip = "''10.0.0.5''"
         and i = 0 and e = "''Connection refused''" and ignore_fail = False,
       THEN conjunct1, THEN mp, OF down]
  note passing =
    writer_failure_logged_flag_returned
      [where write_points = store_up and entry = ?entry and remote_ip = "''10.0.0.5''"
         and ignore_fail = False,
       THEN conjunct2, THEN mp, OF up]
  from failing passing show ?thesis by blast
qed

text \<open>
  C8 as the specification words it has the failure raised again when it is not
  ignored. With \<open>ignore_fail=False\<close> and a store that refuses the write, the writer
  returns \<open>False\<close>; nothing is raised, and \<open>process\<close> ends normally.
\<close>

theorem writer_failure_counterexample:
  "fst (get_metadata_default store_down [(''c1'', [point_fixture ''cpu.usage'' ''c1''])]
          ''10.0.0.5'' False) = Inr False
   \<and> fst (get_metadata_default store_down [(''c1'', [point_fixture ''cpu.usage'' ''c1''])]
          ''10.0.0.5'' False) \<noteq> Inl ''Connection refused''
   \<and> fst (process store_down [(''c1'', [point_fixture ''cpu.usage'' ''c1''])] ''10.0.0.5'')
       = Inr ()"
  by (simp add: process_def get_metadata_default_def store_down_def Let_def)

text \<open>
  C10. Whatever the store does, the payload after the run has the same containers in
  the same order, each with as many records as before, and every record differs from
  the one it was at most in the tag \<open>remote_ip\<close>: measurement, timestamp, fields and
  all other tags are as they were.
\<close>

theorem writer_frame:
  "map fst (entry_after (snd (get_metadata_default write_points entry remote_ip ignore_fail)))
     = map fst entry
   \<and> list_all2 (list_all2 same_but_remote_ip)
        (map snd entry)
        (map snd (entry_after (snd (get_metadata_default write_points entry remote_ip ignore_fail))))
   \<and> map (\<lambda>item. length (snd item))
        (entry_after (snd (get_metadata_default write_points entry remote_ip ignore_fail)))
     = map (\<lambda>item. length (snd item)) entry"
proof -
  obtain entry' calls' r where loop:
    "write_loop write_points remote_ip entry [] = (entry', calls', r)"
    by (cases "write_loop write_points remote_ip entry []") auto
  have after: "entry_after (snd (get_metadata_default write_points entry remote_ip ignore_fail))
                 = entry'"
    by (cases r) (simp_all add: get_metadata_default_def loop)
  from write_loop_frame [OF loop]
  have keys: "map fst entry' = map fst entry"
    and frame: "list_all2 (list_all2 same_but_remote_ip) (map snd entry) (map snd entry')"
    by blast+
  from frame have "list_all2 (\<lambda>ms ms'. length ms = length ms') (map snd entry) (map snd entry')"
    by (rule list_all2_mono) (simp add: list_all2_lengthD)
  then have "map length (map snd entry) = map length (map snd entry')"
    by (simp add: list_all2_conv_all_nth list_eq_iff_nth_eq)
  then have lens: "map (\<lambda>item. length (snd item)) entry' = map (\<lambda>item. length (snd item)) entry"
    by (simp add: comp_def)
  from keys frame lens show ?thesis
    unfolding after by simp
qed

theorem writer_frame_witness:
  "entry_after (snd (get_metadata_default store_down
        [(''c1'', [point_fixture ''cpu.usage'' ''c1'', point_fixture ''memory.usage'' ''c1'']),
         (''c2'', [point_fixture ''cpu.usage'' ''c2''])] ''10.0.0.5'' False))
     = [(''c1'', [tag_metric ''10.0.0.5'' (point_fixture ''cpu.usage'' ''c1''),
                  tag_metric ''10.0.0.5'' (point_fixture ''memory.usage'' ''c1'')]),
        (''c2'', [point_fixture ''cpu.usage'' ''c2''])]
   \<and> list_all2 (list_all2 same_but_remote_ip)
        [[point_fixture ''cpu.usage'' ''c1'', point_fixture ''memory.usage'' ''c1''],
         [point_fixture ''cpu.usage'' ''c2'']]
        [[tag_metric ''10.0.0.5'' (point_fixture ''cpu.usage'' ''c1''),
          tag_metric ''10.0.0.5'' (point_fixture ''memory.usage'' ''c1'')],
         [point_fixture ''cpu.usage'' ''c2'']]"
proof -
  let ?entry = "[(''c1'', [point_fixture ''cpu.usage'' ''c1'', point_fixture ''memory.usage'' ''c1'']),
                 (''c2'', [point_fixture ''cpu.usage'' ''c2''])]"
  have run: "entry_after (snd (get_metadata_default store_down ?entry ''10.0.0.5'' False))
     = [(''c1'', [tag_metric ''10.0.0.5'' (point_fixture ''cpu.usage'' ''c1''),
                  tag_metric ''10.0.0.5'' (point_fixture ''memory.usage'' ''c1'')]),
        (''c2'', [point_fixture ''cpu.usage'' ''c2''])]"
    by (simp add: get_metadata_default_def store_down_def Let_def)
  from writer_frame [of store_down ?entry "''10.0.0.5''" False] show ?thesis
    unfolding run by simp
qed

end
